theory Spec2Isabelle
  imports Complex_Main
begin

section \<open>JavaScript values\<close>

text \<open>
  The payloads handled by \<^verbatim>\<open>fetchEither\<close> have the TypeScript type \<^verbatim>\<open>unknown\<close>: the
  decoded body of a response (a string, a JSON value, a \<^verbatim>\<open>FormData\<close>, a \<^verbatim>\<open>Blob\<close>) or the
  output of a schema. Finite numbers are rationals (every finite double is one); the two
  zeros of a double are both \<open>JNum 0\<close>.
\<close>

datatype jsvalue =
    JUndefined
  | JNull
  | JBool bool
  | JNum rat
  | JNaN
  | JInfinity bool
  | JStr string
  | JArr "jsvalue list"
  | JObj "(string \<times> jsvalue) list"
  | JFormData "(string \<times> string) list"
  | JBlob "nat list"

text \<open>JavaScript's \<^verbatim>\<open>ToBoolean\<close>, which decides \<^verbatim>\<open>if (x)\<close> and \<^verbatim>\<open>x && y\<close>.\<close>

fun truthy :: "jsvalue \<Rightarrow> bool" where
  "truthy JUndefined = False"
| "truthy JNull = False"
| "truthy (JBool b) = b"
| "truthy (JNum q) = (q \<noteq> 0)"
| "truthy JNaN = False"
| "truthy (JInfinity s) = True"
| "truthy (JStr s) = (s \<noteq> [])"
| "truthy (JArr xs) = True"
| "truthy (JObj kvs) = True"
| "truthy (JFormData kvs) = True"
| "truthy (JBlob bs) = True"

section \<open>Raised failures\<close>

text \<open>
  Anything can be thrown in JavaScript. An \<^verbatim>\<open>Error\<close> object is recorded with the most
  specific of the four classes the source tests with \<^verbatim>\<open>instanceof\<close> (\<open>ErrorC\<close> stands for
  \<^verbatim>\<open>Error\<close> itself and every other subclass), its \<^verbatim>\<open>name\<close>, \<^verbatim>\<open>message\<close> and \<^verbatim>\<open>stack\<close>
  (\<open>None\<close> when \<^verbatim>\<open>undefined\<close>). \<open>ThrownValue\<close> is a thrown value that is no \<^verbatim>\<open>Error\<close>.
\<close>

datatype js_class = DOMExceptionC | TypeErrorC | SyntaxErrorC | ErrorC

datatype thrown =
    ThrownError (thrown_class: js_class) (thrown_name: string)
                (thrown_message: string) (thrown_stack: "string option")
  | ThrownValue jsvalue

fun instanceof :: "thrown \<Rightarrow> js_class \<Rightarrow> bool" where
  "instanceof (ThrownError cls nm msg stk) c = (c = ErrorC \<or> cls = c)"
| "instanceof (ThrownValue v) c = False"

section \<open>Effects: external calls, exceptions, try/catch\<close>

text \<open>
  A computation yields the external calls it made, in order, and either the failure it
  raised (\<open>Inl\<close>) or its value (\<open>Inr\<close>). An \<^verbatim>\<open>await\<close>ed rejection is a raise.
\<close>

datatype response_parser = Text | FormData | Json | Blob

type_synonym request_info = string
type_synonym request_init = "(string \<times> string) list"

datatype event =
    FetchCall request_info "request_init option"
  | ReasonPhraseCall int
  | BodyRead response_parser
  | SafeParseCall jsvalue

type_synonym 'a io = "event list \<times> (thrown + 'a)"

definition io_return :: "'a \<Rightarrow> 'a io" where
  "io_return x = ([], Inr x)"

definition io_call :: "event \<Rightarrow> thrown + 'a \<Rightarrow> 'a io" where
  "io_call ev outcome = ([ev], outcome)"

definition io_bind :: "'a io \<Rightarrow> ('a \<Rightarrow> 'b io) \<Rightarrow> 'b io" where
  "io_bind m f =
     (case m of
        (t, Inl e) \<Rightarrow> (t, Inl e)
      | (t, Inr x) \<Rightarrow> (case f x of (t', r) \<Rightarrow> (t @ t', r)))"

definition io_try :: "'a io \<Rightarrow> (thrown \<Rightarrow> 'a io) \<Rightarrow> 'a io" where
  "io_try m handler =
     (case m of
        (t, Inl e) \<Rightarrow> (case handler e of (t', r) \<Rightarrow> (t @ t', r))
      | (t, Inr x) \<Rightarrow> (t, Inr x))"

section \<open>The collaborators: response, schema, transport, reason phrases\<close>

text \<open>
  A \<^verbatim>\<open>Response\<close> as the source uses it: \<^verbatim>\<open>ok\<close>, \<^verbatim>\<open>status\<close>,
  \<^verbatim>\<open>headers.get('Content-Type')\<close> (\<open>None\<close> is \<^verbatim>\<open>null\<close>) and the outcome of each of the four
  body readers, which is read at most once in a call.
\<close>

record response =
  resp_ok :: bool
  resp_status :: int
  header_content_type :: "string option"
  resp_text :: "thrown + string"
  resp_formData :: "thrown + (string \<times> string) list"
  resp_json :: "thrown + jsvalue"
  resp_blob :: "thrown + nat list"

text \<open>A Zod schema, by its \<^verbatim>\<open>safeParse\<close>; an issue's path holds keys and array indices.\<close>

datatype path_element = PathKey string | PathIndex nat

datatype zod_issue = ZodIssue (issue_path: "path_element list") (issue_message: string)

datatype zod_error = ZodError (zod_issues: "zod_issue list") (zod_stack: "string option")

datatype safe_parse_return = SafeParseSuccess jsvalue | SafeParseFailure zod_error

type_synonym zod_schema = "jsvalue \<Rightarrow> thrown + safe_parse_return"

type_synonym fetch_fn = "request_info \<Rightarrow> request_init option \<Rightarrow> thrown + response"

text \<open>
  \<^verbatim>\<open>getReasonPhrase\<close> belongs to the package \<^verbatim>\<open>http-status-codes\<close>, outside the repository:
  it is a parameter, returning the phrase of a status code or raising.
\<close>

type_synonym reason_phrase_fn = "int \<Rightarrow> thrown + string"

record fetchEitherOptions =
  requestInfo :: request_info
  requestInit :: "request_init option"
  errorPayloadSchema :: "zod_schema option"
  successPayloadSchema :: "zod_schema option"

section \<open>The error taxonomy and the result tuple\<close>

datatype fetch_error_type = Abort | TypeFailure | SyntaxFailure

datatype error_entry = ErrorEntry (entry_path: string) (entry_message: string)

text \<open>
  \<^verbatim>\<open>FetchEitherError\<close>: the union of \<^verbatim>\<open>UnknownError\<close>, \<^verbatim>\<open>ResponsePayloadError\<close>, \<^verbatim>\<open>HttpError\<close>,
  \<^verbatim>\<open>ResponseValidationError\<close> and \<^verbatim>\<open>FetchError\<close>. Every variant starts with the \<^verbatim>\<open>message\<close> and
  the optional \<^verbatim>\<open>stack\<close> of \<^verbatim>\<open>BaseError\<close>; an optional field that is absent is \<open>None\<close>.
\<close>

datatype fetch_either_error =
    UnknownError string "string option"
  | PayloadError string "string option" "string option" "response_parser option"
  | HttpError string "string option" int "jsvalue option"
  | ResponseValidationError string "string option" jsvalue "error_entry list"
  | FetchError fetch_error_type string "string option"

text \<open>The \<^verbatim>\<open>type\<close> field, the discriminator of the union.\<close>

fun error_type :: "fetch_either_error \<Rightarrow> string" where
  "error_type (UnknownError msg stk) = ''unknown''"
| "error_type (PayloadError msg stk ct p) = ''payload''"
| "error_type (HttpError msg stk c props) = ''http''"
| "error_type (ResponseValidationError msg stk inp errs) = ''response-validation''"
| "error_type (FetchError Abort msg stk) = ''abort''"
| "error_type (FetchError TypeFailure msg stk) = ''type''"
| "error_type (FetchError SyntaxFailure msg stk) = ''syntax''"

text \<open>
  \<^verbatim>\<open>EitherTuple<E, V> = [E, null] | [null, V]\<close>: the first slot is an error object or
  \<^verbatim>\<open>null\<close> (\<open>None\<close>), the second any value, \<^verbatim>\<open>null\<close> being \<open>JNull\<close>.
\<close>

type_synonym either_tuple = "fetch_either_error option \<times> jsvalue"

section \<open>utils.ts: matchRegex\<close>

text \<open>
  \<^verbatim>\<open>matchRegex(expr)\<close> is the pattern \<^verbatim>\<open>when((str) => expr.test(str))\<close>. Each expression the
  source passes is a literal without anchors, so the test is a search for the literal in
  the string; in \<^verbatim>\<open>/image\/.*/\<close> the tail \<^verbatim>\<open>.*\<close> also matches nothing, which leaves the
  literal \<^verbatim>\<open>image/\<close>. \<^verbatim>\<open>RegExp.test\<close> converts its argument to a string: \<^verbatim>\<open>null\<close> becomes
  \<^verbatim>\<open>"null"\<close>, as in a template literal.
\<close>

fun starts_with :: "string \<Rightarrow> string \<Rightarrow> bool" where
  "starts_with s [] = True"
| "starts_with [] (p # ps) = False"
| "starts_with (c # cs) (p # ps) = (c = p \<and> starts_with cs ps)"

fun search :: "string \<Rightarrow> string \<Rightarrow> bool" where
  "search p [] = (p = [])"
| "search p (c # cs) = (starts_with (c # cs) p \<or> search p cs)"

fun to_string :: "string option \<Rightarrow> string" where
  "to_string None = ''null''"
| "to_string (Some s) = s"

definition matchRegex :: "string \<Rightarrow> string option \<Rightarrow> bool" where
  "matchRegex expr str = search expr (to_string str)"

section \<open>fetch-either.ts\<close>

subsection \<open>extractPayload\<close>

text \<open>The body reader chosen by \<^verbatim>\<open>match(responseType)\<close>, called on the response.\<close>

definition read_body :: "response \<Rightarrow> response_parser \<Rightarrow> jsvalue io" where
  "read_body response responseType =
     io_call (BodyRead responseType)
       (case responseType of
          Text \<Rightarrow> map_sum id JStr (resp_text response)
        | FormData \<Rightarrow> map_sum id JFormData (resp_formData response)
        | Json \<Rightarrow> resp_json response
        | Blob \<Rightarrow> map_sum id JBlob (resp_blob response))"

definition extractPayload :: "response \<Rightarrow> response_parser \<Rightarrow> either_tuple io" where
  "extractPayload response responseType =
     io_try
       (io_bind (read_body response responseType) (\<lambda>extractedBody.
          io_return (None, extractedBody)))
       (\<lambda>e.
          if instanceof e TypeErrorC \<or> instanceof e SyntaxErrorC then
            io_return
              (Some (PayloadError ''Failed to parse response'' (thrown_stack e)
                       (header_content_type response) (Some responseType)),
               JNull)
          else if instanceof e ErrorC then
            io_return (Some (UnknownError (thrown_message e) (thrown_stack e)), JNull)
          else
            io_return (Some (UnknownError ''unkown error'' None), JNull))"

subsection \<open>getResponsePayload\<close>

definition getResponsePayload :: "response \<Rightarrow> either_tuple io" where
  "getResponsePayload response =
     (let contentType = header_content_type response in
      io_bind
        (if matchRegex ''application/json'' contentType then extractPayload response Json
         else if matchRegex ''text/plain'' contentType then extractPayload response Text
         else if matchRegex ''text/html'' contentType then extractPayload response Text
         else if matchRegex ''application/xml'' contentType then extractPayload response Text
         else if matchRegex ''multipart/form-data'' contentType
           then extractPayload response FormData
         else if matchRegex ''application/x-www-form-urlencoded'' contentType
           then extractPayload response FormData
         else if matchRegex ''image/'' contentType then extractPayload response Blob
         else
           io_return
             (Some (PayloadError (''unsupported content type: '' @ to_string contentType)
                      None contentType None),
              JNull))
        (\<lambda>(error, payload).
           case error of
             Some e \<Rightarrow> io_return (Some e, JNull)
           | None \<Rightarrow> io_return (None, payload)))"

subsection \<open>fetchEither\<close>

text \<open>\<^verbatim>\<open>Array.prototype.join\<close>, and \<^verbatim>\<open>String\<close> of a path element (an index in decimal).\<close>

fun join :: "string list \<Rightarrow> string \<Rightarrow> string" where
  "join [] sep = []"
| "join [x] sep = x"
| "join (x # y # ys) sep = x @ sep @ join (y # ys) sep"

fun string_of_nat :: "nat \<Rightarrow> string" where
  "string_of_nat n =
     (if n < 10 then [''0123456789'' ! n]
      else string_of_nat (n div 10) @ [''0123456789'' ! (n mod 10)])"

declare string_of_nat.simps [simp del]

fun path_element_to_string :: "path_element \<Rightarrow> string" where
  "path_element_to_string (PathKey k) = k"
| "path_element_to_string (PathIndex i) = string_of_nat i"

text \<open>
  The object literal \<^verbatim>\<open>validationError\<close>, which the source writes out once on the error path
  and once on the success path, with the same fields.
\<close>

definition validationError :: "jsvalue \<Rightarrow> zod_error \<Rightarrow> fetch_either_error" where
  "validationError payload zodError =
     ResponseValidationError ''Response schema failed to parse the body''
       (zod_stack zodError) payload
       (map (\<lambda>issue.
               ErrorEntry (join (map path_element_to_string (issue_path issue)) ''.'')
                          (issue_message issue))
            (zod_issues zodError))"

text \<open>The \<^verbatim>\<open>catch\<close> block of \<^verbatim>\<open>fetchEither\<close>.\<close>

definition fetchEither_catch :: "thrown \<Rightarrow> either_tuple io" where
  "fetchEither_catch error =
     (if instanceof error DOMExceptionC then
        (if thrown_name error = ''AbortError''
         then io_return
                (Some (FetchError Abort (thrown_message error) (thrown_stack error)), JNull)
         else io_return
                (Some (UnknownError (thrown_message error) (thrown_stack error)), JNull))
      else if instanceof error TypeErrorC then
        io_return
          (Some (FetchError TypeFailure (thrown_message error) (thrown_stack error)), JNull)
      else if instanceof error SyntaxErrorC then
        io_return
          (Some (FetchError SyntaxFailure (thrown_message error) (thrown_stack error)), JNull)
      else if instanceof error ErrorC then
        io_return (Some (UnknownError (thrown_message error) (thrown_stack error)), JNull)
      else
        io_return (Some (UnknownError ''unknown error'' None), JNull))"

text \<open>
  The \<^verbatim>\<open>try\<close> block of \<^verbatim>\<open>fetchEither\<close>. \<^verbatim>\<open>httpError.properties = v\<close> is \<open>with_properties\<close>;
  \<^verbatim>\<open>body && successPayloadSchema\<close> is the schema when \<^verbatim>\<open>body\<close> is truthy and a schema was
  given, and falsy otherwise.
\<close>

fun with_properties :: "fetch_either_error \<Rightarrow> jsvalue \<Rightarrow> fetch_either_error" where
  "with_properties (HttpError msg stk c props) v = HttpError msg stk c (Some v)"
| "with_properties e v = e"

definition fetchEither_try ::
  "fetch_fn \<Rightarrow> reason_phrase_fn \<Rightarrow> fetchEitherOptions \<Rightarrow> either_tuple io" where
  "fetchEither_try fetch getReasonPhrase opts =
     io_bind
       (io_call (FetchCall (requestInfo opts) (requestInit opts))
          (fetch (requestInfo opts) (requestInit opts)))
       (\<lambda>response.
          if \<not> resp_ok response then
            io_bind
              (io_call (ReasonPhraseCall (resp_status response))
                 (getReasonPhrase (resp_status response)))
              (\<lambda>phrase.
                 let httpError = HttpError phrase None (resp_status response) None in
                 io_bind (getResponsePayload response) (\<lambda>(payloadError, payload).
                   case payloadError of
                     Some e \<Rightarrow> io_return (Some e, JNull)
                   | None \<Rightarrow>
                       (case errorPayloadSchema opts of
                          Some schema \<Rightarrow>
                            io_bind (io_call (SafeParseCall payload) (schema payload))
                              (\<lambda>safeParseResponse.
                                 case safeParseResponse of
                                   SafeParseSuccess data \<Rightarrow>
                                     io_return
                                       (Some (with_properties httpError data), JNull)
                                 | SafeParseFailure zodError \<Rightarrow>
                                     io_return
                                       (Some (validationError payload zodError), JNull))
                        | None \<Rightarrow>
                            io_return (Some (with_properties httpError payload), JNull))))
          else
            io_bind (getResponsePayload response) (\<lambda>(error, body).
              case error of
                Some e \<Rightarrow> io_return (Some e, JNull)
              | None \<Rightarrow>
                  (case (if truthy body then successPayloadSchema opts else None) of
                     Some schema \<Rightarrow>
                       io_bind (io_call (SafeParseCall body) (schema body))
                         (\<lambda>safeParseResponse.
                            case safeParseResponse of
                              SafeParseSuccess data \<Rightarrow> io_return (None, data)
                            | SafeParseFailure zodError \<Rightarrow>
                                io_return (Some (validationError body zodError), JNull))
                   | None \<Rightarrow> io_return (None, body))))"

definition fetchEither ::
  "fetch_fn \<Rightarrow> reason_phrase_fn \<Rightarrow> fetchEitherOptions \<Rightarrow> either_tuple io" where
  "fetchEither fetch getReasonPhrase opts =
     io_try (fetchEither_try fetch getReasonPhrase opts) fetchEither_catch"

section \<open>The words of the specification\<close>

text \<open>
  The specification's invariant of the result tuple: the two slots are mutually exclusive,
  never both non-null and never both null.
\<close>

definition mutually_exclusive :: "either_tuple \<Rightarrow> bool" where
  "mutually_exclusive res =
     ((fst res \<noteq> None \<and> snd res = JNull) \<or> (fst res = None \<and> snd res \<noteq> JNull))"

text \<open>
  The specification calls the guard of the success path ``the body is non-empty''. Read as
  it stands, a decoded body is empty when it is absent or has no content: \<^verbatim>\<open>undefined\<close>,
  \<^verbatim>\<open>null\<close>, the empty string and the empty containers. The source tests \<open>truthy\<close>.
\<close>

definition body_non_empty :: "jsvalue \<Rightarrow> bool" where
  "body_non_empty v =
     (v \<notin> set [JUndefined, JNull, JStr [], JArr [], JObj [], JFormData [], JBlob []])"

section \<open>Example inputs\<close>

text \<open>Failures as the platform raises them.\<close>

definition formData_failure :: thrown where
  "formData_failure =
     ThrownError TypeErrorC ''TypeError'' ''Failed to parse body as FormData.''
       (Some ''TypeError: Failed to parse body as FormData.'')"

definition json_failure :: thrown where
  "json_failure =
     ThrownError SyntaxErrorC ''SyntaxError'' ''Unexpected end of JSON input''
       (Some ''SyntaxError: Unexpected end of JSON input'')"

definition abort_failure :: thrown where
  "abort_failure =
     ThrownError DOMExceptionC ''AbortError'' ''The operation was aborted.''
       (Some ''AbortError: The operation was aborted.'')"

definition timeout_failure :: thrown where
  "timeout_failure =
     ThrownError DOMExceptionC ''TimeoutError'' ''The operation timed out.''
       (Some ''TimeoutError: The operation timed out.'')"

definition network_failure :: thrown where
  "network_failure =
     ThrownError TypeErrorC ''TypeError'' ''Failed to fetch'' (Some ''TypeError: Failed to fetch'')"

definition syntax_failure :: thrown where
  "syntax_failure =
     ThrownError SyntaxErrorC ''SyntaxError'' ''Unexpected token''
       (Some ''SyntaxError: Unexpected token'')"

text \<open>
  What the transport raises when the request is cancelled is the reason of the signal:
  the \<^verbatim>\<open>DOMException\<close> named \<^verbatim>\<open>AbortError\<close> after \<^verbatim>\<open>abort()\<close> (\<open>abort_failure\<close>), the reason
  itself after \<^verbatim>\<open>abort('stop')\<close>, and the \<^verbatim>\<open>DOMException\<close> named \<^verbatim>\<open>TimeoutError\<close> of
  \<^verbatim>\<open>AbortSignal.timeout\<close> (\<open>timeout_failure\<close>).
\<close>

definition abort_reason_failure :: thrown where
  "abort_reason_failure = ThrownValue (JStr ''stop'')"

definition range_failure :: thrown where
  "range_failure =
     ThrownError ErrorC ''RangeError'' ''Invalid status'' (Some ''RangeError: Invalid status'')"

text \<open>
  A response with the given \<^verbatim>\<open>ok\<close>, status, content type, body text and outcome of
  \<^verbatim>\<open>json()\<close>; its body is no form data.
\<close>

definition example_response ::
  "bool \<Rightarrow> int \<Rightarrow> string option \<Rightarrow> string \<Rightarrow> thrown + jsvalue \<Rightarrow> response" where
  "example_response ok status contentType raw parsed =
     \<lparr>resp_ok = ok, resp_status = status, header_content_type = contentType,
      resp_text = Inr raw, resp_formData = Inl formData_failure, resp_json = parsed,
      resp_blob = Inr (map of_char raw)\<rparr>"

definition response_json_null :: response where
  "response_json_null =
     example_response True 200 (Some ''application/json'') ''null'' (Inr JNull)"

definition error_body :: jsvalue where
  "error_body = JObj [(''error'', JStr ''Server error'')]"

definition response_500 :: response where
  "response_500 =
     example_response False 500 (Some ''application/json'') ''{\"error\":\"Server error\"}''
       (Inr error_body)"

definition response_500_array :: response where
  "response_500_array =
     example_response False 500 (Some ''application/json'') ''[]'' (Inr (JArr []))"

definition response_500_malformed :: response where
  "response_500_malformed =
     example_response False 500 (Some ''application/json'') ''{'' (Inl json_failure)"

definition response_599 :: response where
  "response_599 =
     example_response False 599 (Some ''application/json'') ''{\"error\":\"Server error\"}''
       (Inr error_body)"

definition response_empty_text :: response where
  "response_empty_text = example_response True 200 (Some ''text/plain'') [] (Inl json_failure)"

definition response_500_false :: response where
  "response_500_false =
     example_response False 500 (Some ''application/json'') ''false'' (Inr (JBool False))"

definition response_false :: response where
  "response_false =
     example_response True 200 (Some ''application/json'') ''false'' (Inr (JBool False))"

definition tags_body :: jsvalue where
  "tags_body = JObj [(''id'', JNum 7), (''tags'', JArr [JStr ''a'', JStr ''b''])]"

definition response_tags :: response where
  "response_tags =
     example_response True 200 (Some ''application/json'')
       ''{\"id\":7,\"tags\":[\"a\",\"b\"]}'' (Inr tags_body)"

definition bad_tags_body :: jsvalue where
  "bad_tags_body = JObj [(''tags'', JArr [JStr ''a'', JNum 1, JNull])]"

definition response_bad_tags :: response where
  "response_bad_tags =
     example_response True 200 (Some ''application/json'')
       ''{\"tags\":[\"a\",1,null]}'' (Inr bad_tags_body)"

text \<open>A transport that answers with a response, and one that fails.\<close>

definition fetch_returns :: "response \<Rightarrow> fetch_fn" where
  "fetch_returns r info init = Inr r"

definition fetch_raises :: "thrown \<Rightarrow> fetch_fn" where
  "fetch_raises e info init = Inl e"

text \<open>
  A reason-phrase lookup that knows 404 and 500 and, for any other code, raises the
  \<^verbatim>\<open>Error\<close> of \<^verbatim>\<open>http-status-codes\<close>, whose table has no entry for 599.
\<close>

definition example_getReasonPhrase :: reason_phrase_fn where
  "example_getReasonPhrase code =
     (if code = 404 then Inr ''Not Found''
      else if code = 500 then Inr ''Internal Server Error''
      else Inl (ThrownError ErrorC ''Error''
                  (''Status code does not exist: '' @ string_of_nat (nat code)) None))"

definition options :: "zod_schema option \<Rightarrow> zod_schema option \<Rightarrow> fetchEitherOptions" where
  "options success_schema error_schema =
     \<lparr>requestInfo = ''http://example.com/resource'', requestInit = None,
      errorPayloadSchema = error_schema, successPayloadSchema = success_schema\<rparr>"

text \<open>Three schemas, as far as the examples use them.\<close>

definition zod_failure :: "zod_issue list \<Rightarrow> thrown + safe_parse_return" where
  "zod_failure issues = Inr (SafeParseFailure (ZodError issues (Some ''ZodError'')))"

text \<open>\<^verbatim>\<open>z.object({ error: z.string() })\<close>, which drops the other keys.\<close>

definition schema_error :: zod_schema where
  "schema_error v =
     (case v of
        JObj kvs \<Rightarrow>
          (case map_of kvs ''error'' of
             Some (JStr s) \<Rightarrow> Inr (SafeParseSuccess (JObj [(''error'', JStr s)]))
           | Some other \<Rightarrow> zod_failure [ZodIssue [PathKey ''error''] ''Expected string'']
           | None \<Rightarrow> zod_failure [ZodIssue [PathKey ''error''] ''Required''])
      | other \<Rightarrow> zod_failure [ZodIssue [] ''Expected object''])"

text \<open>\<^verbatim>\<open>z.object({ tags: z.array(z.string()) })\<close>, with one issue for each element that is no string.\<close>

fun tag_issues :: "nat \<Rightarrow> jsvalue list \<Rightarrow> zod_issue list" where
  "tag_issues i [] = []"
| "tag_issues i (x # xs) =
     (case x of
        JStr s \<Rightarrow> []
      | other \<Rightarrow> [ZodIssue [PathKey ''tags'', PathIndex i] ''Expected string''])
     @ tag_issues (Suc i) xs"

definition schema_tags :: zod_schema where
  "schema_tags v =
     (case v of
        JObj kvs \<Rightarrow>
          (case map_of kvs ''tags'' of
             Some (JArr xs) \<Rightarrow>
               (if tag_issues 0 xs = [] then Inr (SafeParseSuccess (JObj [(''tags'', JArr xs)]))
                else zod_failure (tag_issues 0 xs))
           | Some other \<Rightarrow> zod_failure [ZodIssue [PathKey ''tags''] ''Expected array'']
           | None \<Rightarrow> zod_failure [ZodIssue [PathKey ''tags''] ''Required''])
      | other \<Rightarrow> zod_failure [ZodIssue [] ''Expected object''])"

text \<open>\<^verbatim>\<open>z.coerce.number()\<close>: \<^verbatim>\<open>Number('')\<close> and \<^verbatim>\<open>Number(null)\<close> are 0.\<close>

definition schema_coerce_number :: zod_schema where
  "schema_coerce_number v =
     (case v of
        JNum q \<Rightarrow> Inr (SafeParseSuccess (JNum q))
      | JStr [] \<Rightarrow> Inr (SafeParseSuccess (JNum 0))
      | JNull \<Rightarrow> Inr (SafeParseSuccess (JNum 0))
      | JBool b \<Rightarrow> Inr (SafeParseSuccess (JNum (if b then 1 else 0)))
      | other \<Rightarrow> zod_failure [ZodIssue [] ''Expected number, received nan''])"

text \<open>An ok response with the body \<^verbatim>\<open>[]\<close> and the given content type.\<close>

definition response_of_type :: "string option \<Rightarrow> response" where
  "response_of_type contentType = example_response True 200 contentType ''[]'' (Inr (JArr []))"

text \<open>A response whose body stream is aborted while \<^verbatim>\<open>json()\<close> reads it.\<close>

definition response_aborted_body :: response where
  "response_aborted_body =
     example_response True 200 (Some ''application/json'') ''[]'' (Inl abort_failure)"

section \<open>The regular-expression test is a substring search\<close>

lemma starts_with_iff: "starts_with s p \<longleftrightarrow> (\<exists>b. s = p @ b)"
  by (induction s p rule: starts_with.induct) auto

lemma search_iff: "search p s \<longleftrightarrow> (\<exists>a b. s = a @ p @ b)"
proof (induction s)
  case Nil
  then show ?case by auto
next
  case (Cons c cs)
  have "(\<exists>a b. c # cs = a @ p @ b) \<longleftrightarrow> (\<exists>b. c # cs = p @ b) \<or> (\<exists>a b. cs = a @ p @ b)"
  proof
    assume "\<exists>a b. c # cs = a @ p @ b"
    then obtain a b where ab: "c # cs = a @ p @ b" by blast
    show "(\<exists>b. c # cs = p @ b) \<or> (\<exists>a b. cs = a @ p @ b)"
    proof (cases a)
      case Nil
      with ab show ?thesis by auto
    next
      case (Cons x a')
      with ab have "cs = a' @ p @ b" by simp
      then show ?thesis by blast
    qed
  next
    assume "(\<exists>b. c # cs = p @ b) \<or> (\<exists>a b. cs = a @ p @ b)"
    then show "\<exists>a b. c # cs = a @ p @ b"
    proof
      assume "\<exists>b. c # cs = p @ b"
      then obtain b where "c # cs = [] @ p @ b" by auto
      then show ?thesis by blast
    next
      assume "\<exists>a b. cs = a @ p @ b"
      then obtain a b where "c # cs = (c # a) @ p @ b" by auto
      then show ?thesis by blast
    qed
  qed
  with Cons show ?case by (simp add: starts_with_iff)
qed

lemma matchRegex_iff: "matchRegex expr str \<longleftrightarrow> (\<exists>a b. to_string str = a @ expr @ b)"
  by (simp add: matchRegex_def search_iff)

section \<open>Sequencing and try/catch\<close>

lemma io_bind_Inl [simp]: "io_bind (t, Inl e) f = (t, Inl e)"
  by (simp add: io_bind_def)

lemma io_bind_Inr [simp]: "io_bind (t, Inr x) f = (t @ fst (f x), snd (f x))"
  by (simp add: io_bind_def split: prod.splits)

lemma io_try_Inl [simp]: "io_try (t, Inl e) h = (t @ fst (h e), snd (h e))"
  by (simp add: io_try_def split: prod.splits)

lemma io_try_Inr [simp]: "io_try (t, Inr x) h = (t, Inr x)"
  by (simp add: io_try_def)

lemma fst_io_return [simp]: "fst (io_return x) = []"
  by (simp add: io_return_def)

lemma snd_io_return [simp]: "snd (io_return x) = Inr x"
  by (simp add: io_return_def)

section \<open>extractPayload and getResponsePayload never raise\<close>

lemma extractPayload_Inr:
  "snd (read_body r p) = Inr v \<Longrightarrow> extractPayload r p = ([BodyRead p], Inr (None, v))"
  by (simp add: extractPayload_def read_body_def io_call_def io_return_def)

lemma extractPayload_Inl:
  "snd (read_body r p) = Inl e \<Longrightarrow>
   extractPayload r p =
     ([BodyRead p],
      Inr (Some (if instanceof e TypeErrorC \<or> instanceof e SyntaxErrorC
                 then PayloadError ''Failed to parse response'' (thrown_stack e)
                        (header_content_type r) (Some p)
                 else if instanceof e ErrorC
                 then UnknownError (thrown_message e) (thrown_stack e)
                 else UnknownError ''unkown error'' None), JNull))"
  by (simp add: extractPayload_def read_body_def io_call_def io_return_def)

lemma extractPayload_shape:
  "\<exists>err v. extractPayload r p = ([BodyRead p], Inr (err, v)) \<and> (err = None \<or> v = JNull)"
  by (cases "snd (read_body r p)") (simp_all add: extractPayload_Inr extractPayload_Inl)

text \<open>
  The last lines of \<^verbatim>\<open>getResponsePayload\<close> rebuild the tuple they were given: a tuple
  with an error already has \<^verbatim>\<open>null\<close> in its value slot.
\<close>

lemma reshape_id:
  assumes "m = (t, Inr (err, v))" and "err = None \<or> v = JNull"
  shows "io_bind m (\<lambda>(error, payload).
                      case error of
                        Some e \<Rightarrow> io_return (Some e, JNull)
                      | None \<Rightarrow> io_return (None, payload)) = m"
  using assms by (auto split: option.splits)

lemma reshape_extractPayload:
  "io_bind (extractPayload r p) (\<lambda>(error, payload).
                                   case error of
                                     Some e \<Rightarrow> io_return (Some e, JNull)
                                   | None \<Rightarrow> io_return (None, payload)) = extractPayload r p"
  using extractPayload_shape [of r p] reshape_id by blast

lemma getResponsePayload_shape:
  "\<exists>t err v. getResponsePayload r = (t, Inr (err, v)) \<and> (err = None \<or> v = JNull)"
proof -
  have "\<And>p. \<exists>t err v. extractPayload r p = (t, Inr (err, v)) \<and> (err = None \<or> v = JNull)"
    using extractPayload_shape by blast
  then show ?thesis
    unfolding getResponsePayload_def Let_def
    by (simp add: reshape_extractPayload io_return_def)
qed

lemma getResponsePayload_trace:
  assumes "snd (getResponsePayload r) = out"
  obtains t where "getResponsePayload r = (t, out)"
  using assms by (cases "getResponsePayload r") simp

section \<open>The paths through fetchEither\<close>

lemma fetchEither_catch_shape:
  "\<exists>e. fetchEither_catch x = ([], Inr (Some e, JNull))"
  by (simp add: fetchEither_catch_def io_return_def)

lemma try_fetch_raises:
  assumes "fetch (requestInfo opts) (requestInit opts) = Inl e"
  shows "fetchEither_try fetch g opts =
           ([FetchCall (requestInfo opts) (requestInit opts)], Inl e)"
  using assms by (simp add: fetchEither_try_def io_call_def)

lemma try_lookup_raises:
  assumes "fetch (requestInfo opts) (requestInit opts) = Inr r" and "\<not> resp_ok r"
    and "g (resp_status r) = Inl e"
  shows "fetchEither_try fetch g opts =
           ([FetchCall (requestInfo opts) (requestInit opts),
             ReasonPhraseCall (resp_status r)], Inl e)"
  using assms by (simp add: fetchEither_try_def io_call_def)

lemma try_error_extraction_fails:
  assumes "fetch (requestInfo opts) (requestInit opts) = Inr r" and "\<not> resp_ok r"
    and "g (resp_status r) = Inr phrase"
    and "getResponsePayload r = (t, Inr (Some e, v))"
  shows "fetchEither_try fetch g opts =
           (FetchCall (requestInfo opts) (requestInit opts)
              # ReasonPhraseCall (resp_status r) # t,
            Inr (Some e, JNull))"
  using assms by (simp add: fetchEither_try_def io_call_def io_return_def)

lemma try_error_no_schema:
  assumes "fetch (requestInfo opts) (requestInit opts) = Inr r" and "\<not> resp_ok r"
    and "g (resp_status r) = Inr phrase"
    and "getResponsePayload r = (t, Inr (None, payload))"
    and "errorPayloadSchema opts = None"
  shows "fetchEither_try fetch g opts =
           (FetchCall (requestInfo opts) (requestInit opts)
              # ReasonPhraseCall (resp_status r) # t,
            Inr (Some (HttpError phrase None (resp_status r) (Some payload)), JNull))"
  using assms by (simp add: fetchEither_try_def io_call_def io_return_def)

lemma try_error_schema:
  assumes "fetch (requestInfo opts) (requestInit opts) = Inr r" and "\<not> resp_ok r"
    and "g (resp_status r) = Inr phrase"
    and "getResponsePayload r = (t, Inr (None, payload))"
    and "errorPayloadSchema opts = Some schema"
  shows "fetchEither_try fetch g opts =
           (FetchCall (requestInfo opts) (requestInit opts)
              # ReasonPhraseCall (resp_status r) # t @ [SafeParseCall payload],
            case schema payload of
              Inl e \<Rightarrow> Inl e
            | Inr (SafeParseSuccess data) \<Rightarrow>
                Inr (Some (HttpError phrase None (resp_status r) (Some data)), JNull)
            | Inr (SafeParseFailure zodError) \<Rightarrow>
                Inr (Some (validationError payload zodError), JNull))"
  using assms
  by (simp add: fetchEither_try_def io_call_def io_return_def
           split: sum.splits safe_parse_return.splits)

lemma try_ok_extraction_fails:
  assumes "fetch (requestInfo opts) (requestInit opts) = Inr r" and "resp_ok r"
    and "getResponsePayload r = (t, Inr (Some e, v))"
  shows "fetchEither_try fetch g opts =
           (FetchCall (requestInfo opts) (requestInit opts) # t, Inr (Some e, JNull))"
  using assms by (simp add: fetchEither_try_def io_call_def io_return_def)

lemma try_ok_no_validation:
  assumes "fetch (requestInfo opts) (requestInit opts) = Inr r" and "resp_ok r"
    and "getResponsePayload r = (t, Inr (None, body))"
    and "\<not> truthy body \<or> successPayloadSchema opts = None"
  shows "fetchEither_try fetch g opts =
           (FetchCall (requestInfo opts) (requestInit opts) # t, Inr (None, body))"
  using assms by (auto simp add: fetchEither_try_def io_call_def io_return_def)

lemma try_ok_schema:
  assumes "fetch (requestInfo opts) (requestInit opts) = Inr r" and "resp_ok r"
    and "getResponsePayload r = (t, Inr (None, body))"
    and "truthy body" and "successPayloadSchema opts = Some schema"
  shows "fetchEither_try fetch g opts =
           (FetchCall (requestInfo opts) (requestInit opts) # t @ [SafeParseCall body],
            case schema body of
              Inl e \<Rightarrow> Inl e
            | Inr (SafeParseSuccess data) \<Rightarrow> Inr (None, data)
            | Inr (SafeParseFailure zodError) \<Rightarrow>
                Inr (Some (validationError body zodError), JNull))"
  using assms
  by (simp add: fetchEither_try_def io_call_def io_return_def
           split: sum.splits safe_parse_return.splits)

text \<open>
  The try block either raises or returns a tuple that has no error or no value; the
  cases follow the branches of the source.
\<close>

lemma try_shape:
  "\<exists>t. (\<exists>e. fetchEither_try fetch g opts = (t, Inl e)) \<or>
        (\<exists>err v. fetchEither_try fetch g opts = (t, Inr (err, v)) \<and>
                  (err = None \<or> v = JNull))"
proof (cases "fetch (requestInfo opts) (requestInit opts)")
  case (Inl e)
  then show ?thesis by (simp add: try_fetch_raises)
next
  case (Inr r)
  obtain t err v where g: "getResponsePayload r = (t, Inr (err, v))" "err = None \<or> v = JNull"
    using getResponsePayload_shape by blast
  show ?thesis
  proof (cases "resp_ok r")
    case True
    show ?thesis
    proof (cases err)
      case (Some e)
      with Inr True g show ?thesis by (simp add: try_ok_extraction_fails)
    next
      case None
      show ?thesis
      proof (cases "truthy v \<and> successPayloadSchema opts \<noteq> None")
        case False
        with Inr True g None show ?thesis by (simp add: try_ok_no_validation)
      next
        case validated: True
        then obtain schema where "successPayloadSchema opts = Some schema" by auto
        with Inr True g None validated show ?thesis
          by (simp add: try_ok_schema split: sum.splits safe_parse_return.splits)
      qed
    qed
  next
    case False
    show ?thesis
    proof (cases "g (resp_status r)")
      case (Inl e)
      with Inr False show ?thesis by (simp add: try_lookup_raises)
    next
      case phrase: (Inr phrase)
      show ?thesis
      proof (cases err)
        case (Some e)
        with Inr False g phrase show ?thesis by (simp add: try_error_extraction_fails)
      next
        case None
        show ?thesis
        proof (cases "errorPayloadSchema opts")
          case no_schema: None
          with Inr False g phrase None show ?thesis by (simp add: try_error_no_schema)
        next
          case (Some schema)
          with Inr False g phrase None show ?thesis
            by (simp add: try_error_schema split: sum.splits safe_parse_return.splits)
        qed
      qed
    qed
  qed
qed

lemma fetchEither_catches:
  "fetchEither_try fetch g opts = (t, Inl e) \<Longrightarrow>
   fetchEither fetch g opts = (t, snd (fetchEither_catch e))"
  using fetchEither_catch_shape [of e] by (auto simp add: fetchEither_def)

lemma fetchEither_shape:
  "\<exists>t err v. fetchEither fetch g opts = (t, Inr (err, v)) \<and> (err = None \<or> v = JNull)"
proof -
  obtain t where
    "(\<exists>e. fetchEither_try fetch g opts = (t, Inl e)) \<or>
     (\<exists>err v. fetchEither_try fetch g opts = (t, Inr (err, v)) \<and> (err = None \<or> v = JNull))"
    using try_shape by blast
  then show ?thesis
  proof
    assume "\<exists>e. fetchEither_try fetch g opts = (t, Inl e)"
    then obtain e where "fetchEither_try fetch g opts = (t, Inl e)" by blast
    then show ?thesis
      using fetchEither_catch_shape [of e] by (auto simp: fetchEither_def)
  next
    assume "\<exists>err v. fetchEither_try fetch g opts = (t, Inr (err, v)) \<and>
                     (err = None \<or> v = JNull)"
    then show ?thesis by (auto simp: fetchEither_def)
  qed
qed

lemma error_type_closed:
  "error_type e \<in> {''unknown'', ''http'', ''payload'', ''response-validation'',
                     ''abort'', ''type'', ''syntax''}"
  by (cases e rule: error_type.cases) simp_all

section \<open>The examples, evaluated\<close>

lemma example_response_sel [simp]:
  "resp_ok (example_response ok st ct raw parsed) = ok"
  "resp_status (example_response ok st ct raw parsed) = st"
  "header_content_type (example_response ok st ct raw parsed) = ct"
  "resp_text (example_response ok st ct raw parsed) = Inr raw"
  "resp_formData (example_response ok st ct raw parsed) = Inl formData_failure"
  "resp_json (example_response ok st ct raw parsed) = parsed"
  "resp_blob (example_response ok st ct raw parsed) = Inr (map of_char raw)"
  by (simp_all add: example_response_def)

lemma options_sel [simp]:
  "requestInfo (options s1 s2) = ''http://example.com/resource''"
  "requestInit (options s1 s2) = None"
  "successPayloadSchema (options s1 s2) = s1"
  "errorPayloadSchema (options s1 s2) = s2"
  by (simp_all add: options_def)

lemma fetch_returns_app [simp]: "fetch_returns r info init = Inr r"
  by (simp add: fetch_returns_def)

lemma fetch_raises_app [simp]: "fetch_raises e info init = Inl e"
  by (simp add: fetch_raises_def)

lemma example_getReasonPhrase_500:
  "example_getReasonPhrase 500 = Inr ''Internal Server Error''"
  by (simp add: example_getReasonPhrase_def)

lemma example_getReasonPhrase_599:
  "example_getReasonPhrase 599 =
     Inl (ThrownError ErrorC ''Error'' ''Status code does not exist: 599'' None)"
  by (simp add: example_getReasonPhrase_def string_of_nat.simps)

lemma getResponsePayload_example_json:
  "getResponsePayload (example_response ok st (Some ''application/json'') raw (Inr v)) =
     ([BodyRead Json], Inr (None, v))"
  by (simp add: getResponsePayload_def matchRegex_def extractPayload_Inr read_body_def
        io_call_def reshape_extractPayload)

lemma getResponsePayload_example_malformed:
  "getResponsePayload
     (example_response ok st (Some ''application/json'') raw (Inl json_failure)) =
     ([BodyRead Json],
      Inr (Some (PayloadError ''Failed to parse response''
                   (Some ''SyntaxError: Unexpected end of JSON input'')
                   (Some ''application/json'') (Some Json)), JNull))"
  by (simp add: getResponsePayload_def matchRegex_def extractPayload_Inl read_body_def
        io_call_def reshape_extractPayload json_failure_def)

lemma getResponsePayload_example_text:
  "getResponsePayload (example_response ok st (Some ''text/plain'') raw parsed) =
     ([BodyRead Text], Inr (None, JStr raw))"
  by (simp add: getResponsePayload_def matchRegex_def extractPayload_Inr read_body_def
        io_call_def reshape_extractPayload)

lemma fetchEither_example_599:
  "fetchEither (fetch_returns (example_response False 599 ct raw parsed))
     example_getReasonPhrase (options s1 s2) =
     ([FetchCall ''http://example.com/resource'' None, ReasonPhraseCall 599],
      Inr (Some (UnknownError ''Status code does not exist: 599'' None), JNull))"
proof -
  let ?r = "example_response False 599 ct raw parsed"
  have "fetchEither_try (fetch_returns ?r) example_getReasonPhrase (options s1 s2) =
         ([FetchCall (requestInfo (options s1 s2)) (requestInit (options s1 s2)),
           ReasonPhraseCall (resp_status ?r)],
          Inl (ThrownError ErrorC ''Error'' ''Status code does not exist: 599'' None))"
    by (rule try_lookup_raises [where r = ?r])
       (simp_all add: example_getReasonPhrase_599)
  from fetchEither_catches [OF this] show ?thesis
    by (simp add: fetchEither_catch_def io_return_def)
qed

lemma schema_error_error_body:
  "schema_error error_body = Inr (SafeParseSuccess error_body)"
  by (simp add: schema_error_def error_body_def)

lemma schema_error_array:
  "schema_error (JArr []) =
     Inr (SafeParseFailure (ZodError [ZodIssue [] ''Expected object''] (Some ''ZodError'')))"
  by (simp add: schema_error_def zod_failure_def)

lemma schema_tags_tags_body:
  "schema_tags tags_body =
     Inr (SafeParseSuccess (JObj [(''tags'', JArr [JStr ''a'', JStr ''b''])]))"
  by (simp add: schema_tags_def tags_body_def)

lemma schema_tags_bad_tags_body:
  "schema_tags bad_tags_body =
     Inr (SafeParseFailure
            (ZodError [ZodIssue [PathKey ''tags'', PathIndex 1] ''Expected string'',
                       ZodIssue [PathKey ''tags'', PathIndex 2] ''Expected string'']
               (Some ''ZodError'')))"
  by (simp add: schema_tags_def bad_tags_body_def zod_failure_def numeral_2_eq_2)

lemma schema_tags_false:
  "schema_tags (JBool False) =
     Inr (SafeParseFailure (ZodError [ZodIssue [] ''Expected object''] (Some ''ZodError'')))"
  by (simp add: schema_tags_def zod_failure_def)

lemma join_example:
  "join (map path_element_to_string [PathKey ''items'', PathIndex 12, PathKey ''id'']) ''.''
     = ''items.12.id''"
  by (simp add: string_of_nat.simps)

section \<open>The result tuple\<close>

text \<open>
  Claim C1 as it is worded fails: for an ok response of type \<^verbatim>\<open>application/json\<close> whose
  body is the JSON text \<^verbatim>\<open>null\<close> and no schema, the decoded body is \<^verbatim>\<open>null\<close>, the test
  \<^verbatim>\<open>body && successPayloadSchema\<close> is falsy, and \<^verbatim>\<open>[null, body]\<close> has both slots null.
\<close>

theorem fetchEither_json_null_both_slots_null:
  "snd (fetchEither (fetch_returns response_json_null) example_getReasonPhrase
          (options None None)) = Inr (None, JNull)
   \<and> \<not> mutually_exclusive (None, JNull)"
proof -
  have "fetchEither_try (fetch_returns response_json_null) example_getReasonPhrase
          (options None None) =
          (FetchCall (requestInfo (options None None)) (requestInit (options None None))
             # [BodyRead Json], Inr (None, JNull))"
    by (rule try_ok_no_validation [where r = response_json_null])
       (simp_all add: response_json_null_def getResponsePayload_example_json)
  then show ?thesis
    by (simp add: fetchEither_def mutually_exclusive_def)
qed

text \<open>
  Claim C1, amended: every call to \<^verbatim>\<open>fetchEither\<close> returns a tuple whose slots are never
  both non-null. Either the error slot is non-null and the value slot is \<^verbatim>\<open>null\<close>; or the
  error slot is \<^verbatim>\<open>null\<close>, the transport returned an ok response whose body was extracted,
  and the value slot holds the returned payload: the output of the success schema when
  the body is truthy and a schema was given, the decoded body otherwise. So both slots are
  \<^verbatim>\<open>null\<close> only when that payload is itself \<^verbatim>\<open>null\<close>.
\<close>

theorem fetchEither_slots:
  "\<exists>t err v. fetchEither fetch getReasonPhrase opts = (t, Inr (err, v)) \<and>
     (case err of
        Some e \<Rightarrow> v = JNull
      | None \<Rightarrow>
          (\<exists>r body. fetch (requestInfo opts) (requestInit opts) = Inr r \<and> resp_ok r \<and>
             snd (getResponsePayload r) = Inr (None, body) \<and>
             (if truthy body \<and> successPayloadSchema opts \<noteq> None
              then \<exists>schema. successPayloadSchema opts = Some schema \<and>
                     schema body = Inr (SafeParseSuccess v)
              else v = body)))"
  (is "\<exists>t err v. ?res t err v \<and> ?slots err v")
proof -
  have failed: "?thesis" if "fetchEither fetch getReasonPhrase opts = (t, Inr (Some e, JNull))"
    for t e
    using that by simp
  have caught: "?thesis" if "fetchEither_try fetch getReasonPhrase opts = (t, Inl x)" for t x
  proof -
    obtain e where "fetchEither_catch x = ([], Inr (Some e, JNull))"
      using fetchEither_catch_shape by blast
    with fetchEither_catches [OF that] show ?thesis by (simp add: failed)
  qed
  have returned: "?thesis"
    if "fetchEither_try fetch getReasonPhrase opts = (t, Inr (Some e, JNull))" for t e
    using that by (simp add: fetchEither_def failed)
  show ?thesis
  proof (cases "fetch (requestInfo opts) (requestInit opts)")
    case (Inl x)
    then show ?thesis using caught by (simp add: try_fetch_raises)
  next
    case (Inr r)
    obtain t err body where
      g: "getResponsePayload r = (t, Inr (err, body))" "err = None \<or> body = JNull"
      using getResponsePayload_shape by blast
    show ?thesis
    proof (cases "resp_ok r")
      case True
      show ?thesis
      proof (cases err)
        case (Some e)
        with Inr True g show ?thesis using returned by (simp add: try_ok_extraction_fails)
      next
        case None
        show ?thesis
        proof (cases "truthy body \<and> successPayloadSchema opts \<noteq> None")
          case False
          with Inr True g None
          have "fetchEither fetch getReasonPhrase opts =
                  (FetchCall (requestInfo opts) (requestInit opts) # t, Inr (None, body))"
            by (simp add: fetchEither_def try_ok_no_validation)
          moreover have "?slots None body"
            using Inr True g None False by auto
          ultimately show ?thesis by blast
        next
          case validated: True
          then obtain schema where s: "successPayloadSchema opts = Some schema" by auto
          from Inr True g None validated s
          have tr: "fetchEither_try fetch getReasonPhrase opts =
              (FetchCall (requestInfo opts) (requestInit opts) # t @ [SafeParseCall body],
               case schema body of
                 Inl e \<Rightarrow> Inl e
               | Inr (SafeParseSuccess data) \<Rightarrow> Inr (None, data)
               | Inr (SafeParseFailure zodError) \<Rightarrow>
                   Inr (Some (validationError body zodError), JNull))"
            by (simp add: try_ok_schema)
          show ?thesis
          proof (cases "schema body")
            case (Inl x)
            with tr show ?thesis using caught by simp
          next
            case out: (Inr out)
            show ?thesis
            proof (cases out)
              case (SafeParseSuccess data)
              with tr out
              have "fetchEither fetch getReasonPhrase opts =
                  (FetchCall (requestInfo opts) (requestInit opts) # t @ [SafeParseCall body],
                   Inr (None, data))"
                by (simp add: fetchEither_def)
              moreover have "?slots None data"
                using Inr True g None validated s out SafeParseSuccess by auto
              ultimately show ?thesis by blast
            next
              case (SafeParseFailure zodError)
              with tr out show ?thesis using returned by simp
            qed
          qed
        qed
      qed
    next
      case False
      show ?thesis
      proof (cases "getReasonPhrase (resp_status r)")
        case (Inl x)
        with Inr False show ?thesis using caught by (simp add: try_lookup_raises)
      next
        case phrase: (Inr phrase)
        show ?thesis
        proof (cases err)
          case (Some e)
          with Inr False g phrase show ?thesis
            using returned by (simp add: try_error_extraction_fails)
        next
          case None
          show ?thesis
          proof (cases "errorPayloadSchema opts")
            case no_schema: None
            with Inr False g phrase None show ?thesis
              using returned by (simp add: try_error_no_schema)
          next
            case (Some schema)
            with Inr False g phrase None
            have tr: "fetchEither_try fetch getReasonPhrase opts =
               (FetchCall (requestInfo opts) (requestInit opts)
                  # ReasonPhraseCall (resp_status r) # t @ [SafeParseCall body],
                case schema body of
                  Inl e \<Rightarrow> Inl e
                | Inr (SafeParseSuccess data) \<Rightarrow>
                    Inr (Some (HttpError phrase None (resp_status r) (Some data)), JNull)
                | Inr (SafeParseFailure zodError) \<Rightarrow>
                    Inr (Some (validationError body zodError), JNull))"
              by (simp add: try_error_schema)
            show ?thesis
            proof (cases "schema body")
              case (Inl x)
              with tr show ?thesis using caught by simp
            next
              case out: (Inr out)
              with tr show ?thesis using returned by (cases out) simp_all
            qed
          qed
        qed
      qed
    qed
  qed
qed

text \<open>
  The JSON body \<^verbatim>\<open>null\<close> with a success schema: the body is falsy, so whatever the
  schema, the value slot is \<^verbatim>\<open>null\<close>.
\<close>

theorem fetchEither_slots_witness:
  "\<exists>t err. fetchEither (fetch_returns response_json_null) example_getReasonPhrase
       (options (Some schema_tags) None) = (t, Inr (err, JNull))"
proof -
  from fetchEither_slots [of "fetch_returns response_json_null" example_getReasonPhrase
         "options (Some schema_tags) None"]
  show ?thesis
    by (auto simp add: response_json_null_def getResponsePayload_example_json
          split: option.splits)
qed

section \<open>Totality\<close>

text \<open>
  Claim C2: whatever the transport does (it returns a response of any status, or raises
  anything), whatever the reason-phrase lookup, the body readers and the schemas do,
  \<^verbatim>\<open>fetchEither\<close> returns a tuple and raises nothing, and the error slot, when it is not null,
  holds an error whose \<^verbatim>\<open>type\<close> is one of \<^verbatim>\<open>unknown\<close>, \<^verbatim>\<open>http\<close>, \<^verbatim>\<open>payload\<close>,
  \<^verbatim>\<open>response-validation\<close> and the three \<^verbatim>\<open>FetchError\<close> types \<^verbatim>\<open>abort\<close>, \<^verbatim>\<open>type\<close>, \<^verbatim>\<open>syntax\<close>.
\<close>

theorem fetchEither_total:
  "\<exists>t err v. fetchEither fetch getReasonPhrase opts = (t, Inr (err, v)) \<and>
     map_option error_type err \<in>
       {None, Some ''unknown'', Some ''http'', Some ''payload'', Some ''response-validation'',
        Some ''abort'', Some ''type'', Some ''syntax''}"
proof -
  obtain t err v where "fetchEither fetch getReasonPhrase opts = (t, Inr (err, v))"
    using fetchEither_shape by blast
  then show ?thesis using error_type_closed by (cases err) auto
qed

section \<open>The error path\<close>

text \<open>
  Claim C3: for a non-success response whose body extraction succeeds and an error schema,
  the error is the \<^verbatim>\<open>HttpError\<close> with the schema's output as \<^verbatim>\<open>properties\<close> when the schema
  accepts the payload, and the \<^verbatim>\<open>ResponseValidationError\<close> when it rejects it. The code
  departs from this at a status code without a reason phrase: for status 599, a JSON body
  and an error schema that accepts the body, \<^verbatim>\<open>getReasonPhrase(599)\<close> raises while the
  \<^verbatim>\<open>HttpError\<close> is being built, and the catch block returns an \<^verbatim>\<open>UnknownError\<close>.
\<close>

theorem fetchEither_status_599_error_schema:
  "snd (getResponsePayload response_599) = Inr (None, error_body)
   \<and> schema_error error_body = Inr (SafeParseSuccess error_body)
   \<and> snd (fetchEither (fetch_returns response_599) example_getReasonPhrase
          (options None (Some schema_error)))
     = Inr (Some (UnknownError ''Status code does not exist: 599'' None), JNull)"
  by (simp add: response_599_def getResponsePayload_example_json fetchEither_example_599
        schema_error_error_body)

text \<open>
  On the sibling path, where the lookup returns a phrase, the code does what the claim
  says: the \<^verbatim>\<open>HttpError\<close> with the schema's output when the schema accepts the payload, the
  \<^verbatim>\<open>ResponseValidationError\<close> when it rejects it, and the extraction failure in place of
  both.
\<close>

lemma fetchEither_error_schema:
  assumes "fetch (requestInfo opts) (requestInit opts) = Inr r" and "\<not> resp_ok r"
    and "getReasonPhrase (resp_status r) = Inr phrase"
    and "errorPayloadSchema opts = Some schema"
  shows "(snd (getResponsePayload r) = Inr (None, payload) \<and>
          schema payload = Inr (SafeParseSuccess data) \<longrightarrow>
            snd (fetchEither fetch getReasonPhrase opts) =
              Inr (Some (HttpError phrase None (resp_status r) (Some data)), JNull))
       \<and> (snd (getResponsePayload r) = Inr (None, payload) \<and>
          schema payload = Inr (SafeParseFailure zodError) \<longrightarrow>
            snd (fetchEither fetch getReasonPhrase opts) =
              Inr (Some (validationError payload zodError), JNull))
       \<and> (snd (getResponsePayload r) = Inr (Some e, v) \<longrightarrow>
            snd (fetchEither fetch getReasonPhrase opts) = Inr (Some e, JNull))"
proof (intro conjI impI)
  assume a: "snd (getResponsePayload r) = Inr (None, payload) \<and>
             schema payload = Inr (SafeParseSuccess data)"
  then obtain t where "getResponsePayload r = (t, Inr (None, payload))"
    using getResponsePayload_trace by blast
  from try_error_schema [where fetch = fetch and opts = opts and g = getReasonPhrase,
         OF assms(1,2,3) this assms(4)] a
  show "snd (fetchEither fetch getReasonPhrase opts) =
          Inr (Some (HttpError phrase None (resp_status r) (Some data)), JNull)"
    by (simp add: fetchEither_def)
next
  assume a: "snd (getResponsePayload r) = Inr (None, payload) \<and>
             schema payload = Inr (SafeParseFailure zodError)"
  then obtain t where "getResponsePayload r = (t, Inr (None, payload))"
    using getResponsePayload_trace by blast
  from try_error_schema [where fetch = fetch and opts = opts and g = getReasonPhrase,
         OF assms(1,2,3) this assms(4)] a
  show "snd (fetchEither fetch getReasonPhrase opts) =
          Inr (Some (validationError payload zodError), JNull)"
    by (simp add: fetchEither_def)
next
  assume "snd (getResponsePayload r) = Inr (Some e, v)"
  then obtain t where "getResponsePayload r = (t, Inr (Some e, v))"
    using getResponsePayload_trace by blast
  from try_error_extraction_fails [where fetch = fetch and opts = opts
         and g = getReasonPhrase, OF assms(1,2,3) this]
  show "snd (fetchEither fetch getReasonPhrase opts) = Inr (Some e, JNull)"
    by (simp add: fetchEither_def)
qed

text \<open>
  The three cases at status 500: the body \<^verbatim>\<open>{"error":"Server error"}\<close>, which the schema
  accepts; the body \<^verbatim>\<open>[]\<close>, which it rejects; and a body that is no JSON.
\<close>

lemma fetchEither_error_schema_at_500:
  "snd (fetchEither (fetch_returns response_500) example_getReasonPhrase
          (options None (Some schema_error))) =
     Inr (Some (HttpError ''Internal Server Error'' None 500 (Some error_body)), JNull)
   \<and> snd (fetchEither (fetch_returns response_500_array) example_getReasonPhrase
          (options None (Some schema_error))) =
     Inr (Some (ResponseValidationError ''Response schema failed to parse the body''
                  (Some ''ZodError'') (JArr []) [ErrorEntry [] ''Expected object'']), JNull)
   \<and> snd (fetchEither (fetch_returns response_500_malformed) example_getReasonPhrase
          (options None (Some schema_error))) =
     Inr (Some (PayloadError ''Failed to parse response''
                  (Some ''SyntaxError: Unexpected end of JSON input'')
                  (Some ''application/json'') (Some Json)), JNull)"
proof (intro conjI)
  show "snd (fetchEither (fetch_returns response_500) example_getReasonPhrase
          (options None (Some schema_error))) =
     Inr (Some (HttpError ''Internal Server Error'' None 500 (Some error_body)), JNull)"
    using fetchEither_error_schema [where fetch = "fetch_returns response_500"
        and opts = "options None (Some schema_error)" and r = response_500
        and getReasonPhrase = example_getReasonPhrase and phrase = "''Internal Server Error''"
        and schema = schema_error and payload = error_body and data = error_body]
    by (simp add: response_500_def example_getReasonPhrase_500
          getResponsePayload_example_json schema_error_error_body)
  show "snd (fetchEither (fetch_returns response_500_array) example_getReasonPhrase
          (options None (Some schema_error))) =
     Inr (Some (ResponseValidationError ''Response schema failed to parse the body''
                  (Some ''ZodError'') (JArr []) [ErrorEntry [] ''Expected object'']), JNull)"
    using fetchEither_error_schema [where fetch = "fetch_returns response_500_array"
        and opts = "options None (Some schema_error)" and r = response_500_array
        and getReasonPhrase = example_getReasonPhrase and phrase = "''Internal Server Error''"
        and schema = schema_error and payload = "JArr []"
        and zodError = "ZodError [ZodIssue [] ''Expected object''] (Some ''ZodError'')"]
    by (simp add: response_500_array_def example_getReasonPhrase_500
          getResponsePayload_example_json schema_error_array validationError_def)
  show "snd (fetchEither (fetch_returns response_500_malformed) example_getReasonPhrase
          (options None (Some schema_error))) =
     Inr (Some (PayloadError ''Failed to parse response''
                  (Some ''SyntaxError: Unexpected end of JSON input'')
                  (Some ''application/json'') (Some Json)), JNull)"
    using fetchEither_error_schema [where fetch = "fetch_returns response_500_malformed"
        and opts = "options None (Some schema_error)" and r = response_500_malformed
        and getReasonPhrase = example_getReasonPhrase and phrase = "''Internal Server Error''"
        and schema = schema_error
        and e = "PayloadError ''Failed to parse response''
                   (Some ''SyntaxError: Unexpected end of JSON input'')
                   (Some ''application/json'') (Some Json)" and v = JNull]
    by (simp add: response_500_malformed_def example_getReasonPhrase_500
          getResponsePayload_example_malformed)
qed

text \<open>
  Claim C4: for a non-success response with no error schema whose body extraction
  succeeds, the error is the \<^verbatim>\<open>HttpError\<close> with the status of the response as \<^verbatim>\<open>code\<close> and the
  extracted payload as \<^verbatim>\<open>properties\<close>. The code departs from this at a status code without
  a reason phrase: a response with status 599 and a JSON body gives an \<^verbatim>\<open>UnknownError\<close> and
  no \<^verbatim>\<open>HttpError\<close> with code 599, since \<^verbatim>\<open>getReasonPhrase(599)\<close> raises.
\<close>

theorem fetchEither_status_599_no_schema:
  "snd (getResponsePayload response_599) = Inr (None, error_body)
   \<and> snd (fetchEither (fetch_returns response_599) example_getReasonPhrase
          (options None None))
     = Inr (Some (UnknownError ''Status code does not exist: 599'' None), JNull)"
  by (simp add: response_599_def getResponsePayload_example_json fetchEither_example_599)

text \<open>
  On the sibling path, where the lookup returns a phrase, the error is the \<^verbatim>\<open>HttpError\<close>
  whose \<^verbatim>\<open>code\<close> is the status of the response, whose \<^verbatim>\<open>properties\<close> are the extracted
  payload as it is and whose \<^verbatim>\<open>message\<close> is the reason phrase.
\<close>

lemma fetchEither_http_error_raw_payload:
  assumes "fetch (requestInfo opts) (requestInit opts) = Inr r" and "\<not> resp_ok r"
    and "getReasonPhrase (resp_status r) = Inr phrase"
    and "snd (getResponsePayload r) = Inr (None, payload)"
    and "errorPayloadSchema opts = None"
  shows "snd (fetchEither fetch getReasonPhrase opts) =
           Inr (Some (HttpError phrase None (resp_status r) (Some payload)), JNull)"
proof -
  obtain t where "getResponsePayload r = (t, Inr (None, payload))"
    using assms(4) getResponsePayload_trace by blast
  from try_error_no_schema [where fetch = fetch and opts = opts and g = getReasonPhrase,
         OF assms(1,2,3) this assms(5)]
  show ?thesis by (simp add: fetchEither_def)
qed

text \<open>Status 500 with the body \<^verbatim>\<open>{"error":"Server error"}\<close> and no schema.\<close>

lemma fetchEither_http_error_raw_payload_at_500:
  "snd (fetchEither (fetch_returns response_500) example_getReasonPhrase (options None None)) =
     Inr (Some (HttpError ''Internal Server Error'' None 500 (Some error_body)), JNull)"
  using fetchEither_http_error_raw_payload [where fetch = "fetch_returns response_500"
      and opts = "options None None" and r = response_500
      and getReasonPhrase = example_getReasonPhrase and phrase = "''Internal Server Error''"
      and payload = error_body]
  by (simp add: response_500_def example_getReasonPhrase_500 getResponsePayload_example_json)

text \<open>
  Claim C10: when the response is a non-success one and the reason-phrase lookup raises
  for its status code (\<^verbatim>\<open>http-status-codes\<close> raises an \<^verbatim>\<open>Error\<close> for a code outside its
  table), \<^verbatim>\<open>fetchEither\<close> returns an \<^verbatim>\<open>UnknownError\<close> with the message of that failure; the
  calls made are the transport call and the lookup, so no body is read and no schema is
  run.
\<close>

theorem fetchEither_no_reason_phrase:
  assumes "fetch (requestInfo opts) (requestInit opts) = Inr r" and "\<not> resp_ok r"
    and "getReasonPhrase (resp_status r) = Inl (ThrownError ErrorC nm msg stk)"
  shows "fetchEither fetch getReasonPhrase opts =
           ([FetchCall (requestInfo opts) (requestInit opts), ReasonPhraseCall (resp_status r)],
            Inr (Some (UnknownError msg stk), JNull))"
proof -
  from try_lookup_raises [where fetch = fetch and opts = opts and g = getReasonPhrase,
         OF assms]
  have "fetchEither fetch getReasonPhrase opts =
          ([FetchCall (requestInfo opts) (requestInit opts), ReasonPhraseCall (resp_status r)],
           snd (fetchEither_catch (ThrownError ErrorC nm msg stk)))"
    by (rule fetchEither_catches)
  then show ?thesis
    by (simp add: fetchEither_catch_def io_return_def)
qed

text \<open>Status 404 is in the table of the example lookup, status 599 is not.\<close>

theorem fetchEither_no_reason_phrase_witness:
  "fetchEither (fetch_returns response_599) example_getReasonPhrase
     (options (Some schema_tags) (Some schema_error)) =
     ([FetchCall ''http://example.com/resource'' None, ReasonPhraseCall 599],
      Inr (Some (UnknownError ''Status code does not exist: 599'' None), JNull))"
  using fetchEither_no_reason_phrase [where fetch = "fetch_returns response_599"
      and opts = "options (Some schema_tags) (Some schema_error)" and r = response_599
      and getReasonPhrase = example_getReasonPhrase and nm = "''Error''"
      and msg = "''Status code does not exist: 599''" and stk = None]
  by (simp add: response_599_def example_getReasonPhrase_599)

section \<open>The success path\<close>

text \<open>
  Claim C5 as it is worded fails: an ok response of type \<^verbatim>\<open>text/plain\<close> with an empty body
  and the schema \<^verbatim>\<open>z.coerce.number()\<close>, which accepts the empty string and gives 0. The
  decoded body is falsy, the schema is not run, and the value is the empty string.
\<close>

theorem fetchEither_empty_text_skips_schema:
  "snd (getResponsePayload response_empty_text) = Inr (None, JStr [])
   \<and> schema_coerce_number (JStr []) = Inr (SafeParseSuccess (JNum 0))
   \<and> snd (fetchEither (fetch_returns response_empty_text) example_getReasonPhrase
          (options (Some schema_coerce_number) None)) = Inr (None, JStr [])"
proof -
  have g: "getResponsePayload response_empty_text = ([BodyRead Text], Inr (None, JStr []))"
    by (simp add: response_empty_text_def getResponsePayload_example_text)
  have "fetchEither_try (fetch_returns response_empty_text) example_getReasonPhrase
          (options (Some schema_coerce_number) None) =
          (FetchCall (requestInfo (options (Some schema_coerce_number) None))
             (requestInit (options (Some schema_coerce_number) None)) # [BodyRead Text],
           Inr (None, JStr []))"
    by (rule try_ok_no_validation [where r = response_empty_text])
       (simp_all add: g, simp add: response_empty_text_def)
  then show ?thesis
    by (simp add: fetchEither_def g schema_coerce_number_def)
qed

text \<open>
  Claim C5, amended: for every ok response whose body extraction succeeds, whose decoded
  body is truthy, and for which a success schema was given that accepts the decoded body,
  the returned tuple is \<^verbatim>\<open>[null, v]\<close> with \<open>v\<close> the output of the schema.
\<close>

theorem fetchEither_success_schema_accepts:
  assumes "fetch (requestInfo opts) (requestInit opts) = Inr r" and "resp_ok r"
    and "snd (getResponsePayload r) = Inr (None, body)" and "truthy body"
    and "successPayloadSchema opts = Some schema"
    and "schema body = Inr (SafeParseSuccess data)"
  shows "snd (fetchEither fetch getReasonPhrase opts) = Inr (None, data)"
proof -
  obtain t where "getResponsePayload r = (t, Inr (None, body))"
    using assms(3) getResponsePayload_trace by blast
  from try_ok_schema [where fetch = fetch and opts = opts and g = getReasonPhrase,
         OF assms(1,2) this assms(4,5)] assms(6)
  show ?thesis by (simp add: fetchEither_def)
qed

text \<open>
  The body \<^verbatim>\<open>{"id":7,"tags":["a","b"]}\<close> and the schema for \<^verbatim>\<open>tags\<close>: the value is the
  output of the schema, without the key \<^verbatim>\<open>id\<close>.
\<close>

theorem fetchEither_success_schema_accepts_witness:
  "truthy tags_body
   \<and> snd (fetchEither (fetch_returns response_tags) example_getReasonPhrase
          (options (Some schema_tags) None)) =
     Inr (None, JObj [(''tags'', JArr [JStr ''a'', JStr ''b''])])"
  using fetchEither_success_schema_accepts [where fetch = "fetch_returns response_tags"
      and opts = "options (Some schema_tags) None" and r = response_tags
      and getReasonPhrase = example_getReasonPhrase and body = tags_body
      and schema = schema_tags and data = "JObj [(''tags'', JArr [JStr ''a'', JStr ''b''])]"]
  by (simp add: response_tags_def getResponsePayload_example_json schema_tags_tags_body)
     (simp add: tags_body_def)

text \<open>
  Claim C6: for an ok response whose body extraction succeeds, whose decoded body is not
  empty, and a success schema that rejects the body, the error is the
  \<^verbatim>\<open>ResponseValidationError\<close> with one entry for each issue and the decoded body as \<^verbatim>\<open>input\<close>.
  The code departs from this at a body that is not empty but falsy: for an ok response of
  type \<^verbatim>\<open>application/json\<close> whose body is the JSON text \<^verbatim>\<open>false\<close> and an object schema,
  which rejects it, the schema is not run and the result is the value \<^verbatim>\<open>false\<close> with no
  error.
\<close>

theorem fetchEither_false_body_skips_schema:
  "body_non_empty (JBool False)
   \<and> snd (getResponsePayload response_false) = Inr (None, JBool False)
   \<and> schema_tags (JBool False) =
       Inr (SafeParseFailure (ZodError [ZodIssue [] ''Expected object''] (Some ''ZodError'')))
   \<and> snd (fetchEither (fetch_returns response_false) example_getReasonPhrase
          (options (Some schema_tags) None)) = Inr (None, JBool False)"
proof -
  have g: "getResponsePayload response_false = ([BodyRead Json], Inr (None, JBool False))"
    by (simp add: response_false_def getResponsePayload_example_json)
  have "fetchEither_try (fetch_returns response_false) example_getReasonPhrase
          (options (Some schema_tags) None) =
          (FetchCall (requestInfo (options (Some schema_tags) None))
             (requestInit (options (Some schema_tags) None)) # [BodyRead Json],
           Inr (None, JBool False))"
    by (rule try_ok_no_validation [where r = response_false])
       (simp_all add: g, simp add: response_false_def)
  then show ?thesis
    by (simp add: fetchEither_def g schema_tags_false body_non_empty_def)
qed

text \<open>
  The error path has no such test: with status 500, the same body \<^verbatim>\<open>false\<close> and the same
  schema as error schema, the schema is run and its rejection is returned.
\<close>

lemma fetchEither_error_path_validates_false:
  "snd (fetchEither (fetch_returns response_500_false) example_getReasonPhrase
          (options None (Some schema_tags))) =
     Inr (Some (ResponseValidationError ''Response schema failed to parse the body''
                  (Some ''ZodError'') (JBool False) [ErrorEntry [] ''Expected object'']), JNull)"
proof -
  have "fetchEither_try (fetch_returns response_500_false) example_getReasonPhrase
          (options None (Some schema_tags)) =
          (FetchCall (requestInfo (options None (Some schema_tags)))
             (requestInit (options None (Some schema_tags)))
             # ReasonPhraseCall (resp_status response_500_false) # [BodyRead Json]
             @ [SafeParseCall (JBool False)],
           case schema_tags (JBool False) of
             Inl e \<Rightarrow> Inl e
           | Inr (SafeParseSuccess data) \<Rightarrow>
               Inr (Some (HttpError ''Internal Server Error'' None
                            (resp_status response_500_false) (Some data)), JNull)
           | Inr (SafeParseFailure zodError) \<Rightarrow>
               Inr (Some (validationError (JBool False) zodError), JNull))"
    by (rule try_error_schema [where r = response_500_false])
       (simp_all add: response_500_false_def example_getReasonPhrase_500
          getResponsePayload_example_json)
  then show ?thesis
    by (simp add: fetchEither_def schema_tags_false validationError_def)
qed

text \<open>
  On the sibling path of the success branch, where the decoded body is truthy, the code
  does what the claim says: the \<^verbatim>\<open>errors\<close> hold, for each issue of the schema and in their
  order, the path of the issue joined with dots and its message, and the \<^verbatim>\<open>input\<close> is the
  decoded body.
\<close>

lemma fetchEither_success_schema_rejects:
  assumes "fetch (requestInfo opts) (requestInit opts) = Inr r" and "resp_ok r"
    and "snd (getResponsePayload r) = Inr (None, body)" and "truthy body"
    and "successPayloadSchema opts = Some schema"
    and "schema body = Inr (SafeParseFailure zodError)"
  shows "snd (fetchEither fetch getReasonPhrase opts) =
           Inr (Some (ResponseValidationError ''Response schema failed to parse the body''
                        (zod_stack zodError) body
                        (map (\<lambda>issue.
                                ErrorEntry
                                  (join (map path_element_to_string (issue_path issue)) ''.'')
                                  (issue_message issue))
                           (zod_issues zodError))), JNull)"
proof -
  obtain t where "getResponsePayload r = (t, Inr (None, body))"
    using assms(3) getResponsePayload_trace by blast
  from try_ok_schema [where fetch = fetch and opts = opts and g = getReasonPhrase,
         OF assms(1,2) this assms(4,5)] assms(6)
  show ?thesis by (simp add: fetchEither_def validationError_def)
qed

text \<open>
  The body \<^verbatim>\<open>{"tags":["a",1,null]}\<close> and the schema for \<^verbatim>\<open>tags\<close>: two issues, at the paths
  \<^verbatim>\<open>tags.1\<close> and \<^verbatim>\<open>tags.2\<close>.
\<close>

lemma fetchEither_success_schema_rejects_at_bad_tags:
  "truthy bad_tags_body
   \<and> snd (fetchEither (fetch_returns response_bad_tags) example_getReasonPhrase
          (options (Some schema_tags) None)) =
     Inr (Some (ResponseValidationError ''Response schema failed to parse the body''
                  (Some ''ZodError'') bad_tags_body
                  [ErrorEntry ''tags.1'' ''Expected string'',
                   ErrorEntry ''tags.2'' ''Expected string'']), JNull)"
  using fetchEither_success_schema_rejects [where fetch = "fetch_returns response_bad_tags"
      and opts = "options (Some schema_tags) None" and r = response_bad_tags
      and getReasonPhrase = example_getReasonPhrase and body = bad_tags_body
      and schema = schema_tags
      and zodError = "ZodError [ZodIssue [PathKey ''tags'', PathIndex 1] ''Expected string'',
                                ZodIssue [PathKey ''tags'', PathIndex 2] ''Expected string'']
                        (Some ''ZodError'')"]
  by (simp add: response_bad_tags_def getResponsePayload_example_json
        schema_tags_bad_tags_body string_of_nat.simps)
     (simp add: bad_tags_body_def)

section \<open>Content-type routing and body extraction\<close>

text \<open>
  Claim C7: \<^verbatim>\<open>getResponsePayload\<close> tries its rules in order on the declared content type and
  the first rule that matches decides: \<^verbatim>\<open>application/json\<close> reads the body with \<^verbatim>\<open>json\<close>;
  otherwise \<^verbatim>\<open>text/plain\<close>, \<^verbatim>\<open>text/html\<close> or \<^verbatim>\<open>application/xml\<close> reads it with \<^verbatim>\<open>text\<close>;
  otherwise \<^verbatim>\<open>multipart/form-data\<close> or \<^verbatim>\<open>application/x-www-form-urlencoded\<close> reads it with
  \<^verbatim>\<open>formData\<close>; otherwise \<^verbatim>\<open>image/\<close> reads it with \<^verbatim>\<open>blob\<close>; and when no rule matches, no
  body is read and the result is the payload error that carries the declared content
  type, with \<^verbatim>\<open>null\<close> as value. An extraction makes one call, to the reader it was given.
\<close>

theorem getResponsePayload_routes:
  "(matchRegex ''application/json'' (header_content_type r) \<longrightarrow>
      getResponsePayload r = extractPayload r Json)
   \<and> (\<not> matchRegex ''application/json'' (header_content_type r) \<and>
      (matchRegex ''text/plain'' (header_content_type r) \<or>
       matchRegex ''text/html'' (header_content_type r) \<or>
       matchRegex ''application/xml'' (header_content_type r)) \<longrightarrow>
      getResponsePayload r = extractPayload r Text)
   \<and> (\<not> matchRegex ''application/json'' (header_content_type r) \<and>
      \<not> matchRegex ''text/plain'' (header_content_type r) \<and>
      \<not> matchRegex ''text/html'' (header_content_type r) \<and>
      \<not> matchRegex ''application/xml'' (header_content_type r) \<and>
      (matchRegex ''multipart/form-data'' (header_content_type r) \<or>
       matchRegex ''application/x-www-form-urlencoded'' (header_content_type r)) \<longrightarrow>
      getResponsePayload r = extractPayload r FormData)
   \<and> (\<not> matchRegex ''application/json'' (header_content_type r) \<and>
      \<not> matchRegex ''text/plain'' (header_content_type r) \<and>
      \<not> matchRegex ''text/html'' (header_content_type r) \<and>
      \<not> matchRegex ''application/xml'' (header_content_type r) \<and>
      \<not> matchRegex ''multipart/form-data'' (header_content_type r) \<and>
      \<not> matchRegex ''application/x-www-form-urlencoded'' (header_content_type r) \<and>
      matchRegex ''image/'' (header_content_type r) \<longrightarrow>
      getResponsePayload r = extractPayload r Blob)
   \<and> (\<not> matchRegex ''application/json'' (header_content_type r) \<and>
      \<not> matchRegex ''text/plain'' (header_content_type r) \<and>
      \<not> matchRegex ''text/html'' (header_content_type r) \<and>
      \<not> matchRegex ''application/xml'' (header_content_type r) \<and>
      \<not> matchRegex ''multipart/form-data'' (header_content_type r) \<and>
      \<not> matchRegex ''application/x-www-form-urlencoded'' (header_content_type r) \<and>
      \<not> matchRegex ''image/'' (header_content_type r) \<longrightarrow>
      getResponsePayload r =
        ([], Inr (Some (PayloadError
                          (''unsupported content type: '' @ to_string (header_content_type r))
                          None (header_content_type r) None), JNull)))
   \<and> fst (extractPayload r p) = [BodyRead p]"
proof -
  have "fst (extractPayload r p) = [BodyRead p]"
    using extractPayload_shape [of r p] by auto
  then show ?thesis
    unfolding getResponsePayload_def Let_def
    by (simp add: reshape_extractPayload io_return_def)
qed

text \<open>
  One content type for each rule, one that matches a text rule and the JSON rule, one
  that matches no rule, and a response without the header.
\<close>

theorem getResponsePayload_routes_witness:
  "getResponsePayload (response_of_type (Some ''application/json; charset=utf-8'')) =
     ([BodyRead Json], Inr (None, JArr []))
   \<and> getResponsePayload (response_of_type (Some ''text/plain; note=application/json'')) =
     ([BodyRead Json], Inr (None, JArr []))
   \<and> getResponsePayload (response_of_type (Some ''text/html'')) =
     ([BodyRead Text], Inr (None, JStr ''[]''))
   \<and> getResponsePayload (response_of_type (Some ''multipart/form-data; boundary=x'')) =
     ([BodyRead FormData],
      Inr (Some (PayloadError ''Failed to parse response''
                   (Some ''TypeError: Failed to parse body as FormData.'')
                   (Some ''multipart/form-data; boundary=x'') (Some FormData)), JNull))
   \<and> getResponsePayload (response_of_type (Some ''image/png'')) =
     ([BodyRead Blob], Inr (None, JBlob [91, 93]))
   \<and> getResponsePayload (response_of_type (Some ''application/pdf'')) =
     ([], Inr (Some (PayloadError ''unsupported content type: application/pdf'' None
                       (Some ''application/pdf'') None), JNull))
   \<and> getResponsePayload (response_of_type None) =
     ([], Inr (Some (PayloadError ''unsupported content type: null'' None None None), JNull))"
proof (intro conjI)
  show "getResponsePayload (response_of_type (Some ''application/json; charset=utf-8'')) =
     ([BodyRead Json], Inr (None, JArr []))"
    using getResponsePayload_routes
            [of "response_of_type (Some ''application/json; charset=utf-8'')"]
    by (simp add: response_of_type_def matchRegex_def extractPayload_Inr read_body_def
          io_call_def)
  show "getResponsePayload (response_of_type (Some ''text/plain; note=application/json'')) =
     ([BodyRead Json], Inr (None, JArr []))"
    using getResponsePayload_routes
            [of "response_of_type (Some ''text/plain; note=application/json'')"]
    by (simp add: response_of_type_def matchRegex_def extractPayload_Inr read_body_def
          io_call_def)
  show "getResponsePayload (response_of_type (Some ''text/html'')) =
     ([BodyRead Text], Inr (None, JStr ''[]''))"
    using getResponsePayload_routes [of "response_of_type (Some ''text/html'')"]
    by (simp add: response_of_type_def matchRegex_def extractPayload_Inr read_body_def
          io_call_def)
  show "getResponsePayload (response_of_type (Some ''multipart/form-data; boundary=x'')) =
     ([BodyRead FormData],
      Inr (Some (PayloadError ''Failed to parse response''
                   (Some ''TypeError: Failed to parse body as FormData.'')
                   (Some ''multipart/form-data; boundary=x'') (Some FormData)), JNull))"
    using getResponsePayload_routes
            [of "response_of_type (Some ''multipart/form-data; boundary=x'')"]
    by (simp add: response_of_type_def matchRegex_def extractPayload_Inl read_body_def
          io_call_def formData_failure_def)
  show "getResponsePayload (response_of_type (Some ''image/png'')) =
     ([BodyRead Blob], Inr (None, JBlob [91, 93]))"
    using getResponsePayload_routes [of "response_of_type (Some ''image/png'')"]
    by (simp add: response_of_type_def matchRegex_def extractPayload_Inr read_body_def
          io_call_def)
  show "getResponsePayload (response_of_type (Some ''application/pdf'')) =
     ([], Inr (Some (PayloadError ''unsupported content type: application/pdf'' None
                       (Some ''application/pdf'') None), JNull))"
    using getResponsePayload_routes [of "response_of_type (Some ''application/pdf'')"]
    by (simp add: response_of_type_def matchRegex_def)
  show "getResponsePayload (response_of_type None) =
     ([], Inr (Some (PayloadError ''unsupported content type: null'' None None None), JNull))"
    using getResponsePayload_routes [of "response_of_type None"]
    by (simp add: response_of_type_def matchRegex_def)
qed

text \<open>
  Claim C8: when the body reader raises, \<^verbatim>\<open>extractPayload\<close> returns, for a \<^verbatim>\<open>TypeError\<close> or a
  \<^verbatim>\<open>SyntaxError\<close>, the payload error with the declared content type of the response, the
  parser that was tried and the message \<^verbatim>\<open>Failed to parse response\<close>; and for any other
  \<^verbatim>\<open>Error\<close> the \<^verbatim>\<open>UnknownError\<close> with the message and the stack of the failure.
\<close>

theorem extractPayload_classifies_failure:
  assumes "snd (read_body r p) = Inl e"
  shows "(instanceof e TypeErrorC \<or> instanceof e SyntaxErrorC \<longrightarrow>
            snd (extractPayload r p) =
              Inr (Some (PayloadError ''Failed to parse response'' (thrown_stack e)
                           (header_content_type r) (Some p)), JNull))
       \<and> (\<not> instanceof e TypeErrorC \<and> \<not> instanceof e SyntaxErrorC \<and> instanceof e ErrorC \<longrightarrow>
            snd (extractPayload r p) =
              Inr (Some (UnknownError (thrown_message e) (thrown_stack e)), JNull))"
  using assms by (simp add: extractPayload_Inl)

text \<open>A body that is no JSON, and a body stream that is aborted.\<close>

theorem extractPayload_classifies_failure_witness:
  "snd (read_body response_500_malformed Json) = Inl json_failure
   \<and> snd (extractPayload response_500_malformed Json) =
       Inr (Some (PayloadError ''Failed to parse response''
                    (Some ''SyntaxError: Unexpected end of JSON input'')
                    (Some ''application/json'') (Some Json)), JNull)
   \<and> snd (read_body response_aborted_body Json) = Inl abort_failure
   \<and> snd (extractPayload response_aborted_body Json) =
       Inr (Some (UnknownError ''The operation was aborted.''
                    (Some ''AbortError: The operation was aborted.'')), JNull)"
proof -
  have a: "snd (read_body response_500_malformed Json) = Inl json_failure"
    by (simp add: read_body_def io_call_def response_500_malformed_def)
  have b: "snd (read_body response_aborted_body Json) = Inl abort_failure"
    by (simp add: read_body_def io_call_def response_aborted_body_def)
  from extractPayload_classifies_failure [OF a] extractPayload_classifies_failure [OF b] a b
  show ?thesis
    by (simp add: json_failure_def abort_failure_def response_500_malformed_def
          response_aborted_body_def)
qed

section \<open>Transport failures\<close>

text \<open>
  Claim C9 as it is worded fails: not every cancellation gives the \<^verbatim>\<open>FetchError\<close> of type
  \<^verbatim>\<open>abort\<close>. After \<^verbatim>\<open>abort('stop')\<close> the transport raises the string, which is no \<^verbatim>\<open>Error\<close>, and
  after a timeout it raises a \<^verbatim>\<open>DOMException\<close> named \<^verbatim>\<open>TimeoutError\<close>; the catch block tests the
  name \<^verbatim>\<open>AbortError\<close> and returns an \<^verbatim>\<open>UnknownError\<close> for both.
\<close>

theorem fetchEither_cancellation_not_abort:
  "fetchEither (fetch_raises abort_reason_failure) example_getReasonPhrase (options None None) =
     ([FetchCall ''http://example.com/resource'' None],
      Inr (Some (UnknownError ''unknown error'' None), JNull))
   \<and> error_type (UnknownError ''unknown error'' None) \<noteq> ''abort''
   \<and> fetchEither (fetch_raises timeout_failure) example_getReasonPhrase (options None None) =
     ([FetchCall ''http://example.com/resource'' None],
      Inr (Some (UnknownError ''The operation timed out.''
                   (Some ''TimeoutError: The operation timed out.'')), JNull))
   \<and> error_type (UnknownError ''The operation timed out.''
                   (Some ''TimeoutError: The operation timed out.'')) \<noteq> ''abort''"
proof -
  have raised: "fetchEither (fetch_raises e) example_getReasonPhrase (options None None) =
          ([FetchCall ''http://example.com/resource'' None], snd (fetchEither_catch e))" for e
    using fetchEither_catches
            [where fetch = "fetch_raises e" and g = example_getReasonPhrase
               and opts = "options None None", OF try_fetch_raises [where e = e]]
    by simp
  show ?thesis
    by (simp add: raised fetchEither_catch_def io_return_def abort_reason_failure_def
          timeout_failure_def)
qed

text \<open>
  Claim C9, amended: when the transport call raises, \<^verbatim>\<open>fetchEither\<close> makes no other call and
  returns: for a \<^verbatim>\<open>DOMException\<close> named \<^verbatim>\<open>AbortError\<close> (what an abort without a reason of its
  own raises) the \<^verbatim>\<open>FetchError\<close> of type \<^verbatim>\<open>abort\<close>; for a \<^verbatim>\<open>TypeError\<close> the type \<^verbatim>\<open>type\<close>; for
  a \<^verbatim>\<open>SyntaxError\<close> the type \<^verbatim>\<open>syntax\<close>; for any other \<^verbatim>\<open>Error\<close>, a \<^verbatim>\<open>DOMException\<close> of another
  name among them, the \<^verbatim>\<open>UnknownError\<close> with the message of the failure; and for a thrown
  value that is no \<^verbatim>\<open>Error\<close> the \<^verbatim>\<open>UnknownError\<close> with the message \<^verbatim>\<open>unknown error\<close>. A
  cancellation is classified by what it raises.
\<close>

theorem fetchEither_classifies_transport_failure:
  assumes "fetch (requestInfo opts) (requestInit opts) = Inl e"
  shows "(e = ThrownError DOMExceptionC ''AbortError'' msg stk \<longrightarrow>
            fetchEither fetch getReasonPhrase opts =
              ([FetchCall (requestInfo opts) (requestInit opts)],
               Inr (Some (FetchError Abort msg stk), JNull)))
       \<and> (e = ThrownError TypeErrorC nm msg stk \<longrightarrow>
            fetchEither fetch getReasonPhrase opts =
              ([FetchCall (requestInfo opts) (requestInit opts)],
               Inr (Some (FetchError TypeFailure msg stk), JNull)))
       \<and> (e = ThrownError SyntaxErrorC nm msg stk \<longrightarrow>
            fetchEither fetch getReasonPhrase opts =
              ([FetchCall (requestInfo opts) (requestInit opts)],
               Inr (Some (FetchError SyntaxFailure msg stk), JNull)))
       \<and> (e = ThrownError cls nm msg stk \<and> cls \<noteq> TypeErrorC \<and> cls \<noteq> SyntaxErrorC \<and>
          \<not> (cls = DOMExceptionC \<and> nm = ''AbortError'') \<longrightarrow>
            fetchEither fetch getReasonPhrase opts =
              ([FetchCall (requestInfo opts) (requestInit opts)],
               Inr (Some (UnknownError msg stk), JNull)))
       \<and> (e = ThrownValue v \<longrightarrow>
            fetchEither fetch getReasonPhrase opts =
              ([FetchCall (requestInfo opts) (requestInit opts)],
               Inr (Some (UnknownError ''unknown error'' None), JNull)))"
proof -
  have "fetchEither fetch getReasonPhrase opts =
          ([FetchCall (requestInfo opts) (requestInit opts)], snd (fetchEither_catch e))"
    using assms by (simp add: try_fetch_raises fetchEither_catches)
  then show ?thesis
    by (cases cls) (auto simp add: fetchEither_catch_def io_return_def)
qed

text \<open>
  An abort, a network failure, a \<^verbatim>\<open>SyntaxError\<close>, a timeout (a \<^verbatim>\<open>DOMException\<close> of another
  name), another \<^verbatim>\<open>Error\<close> and a thrown string.
\<close>

theorem fetchEither_classifies_transport_failure_witness:
  "fetchEither (fetch_raises abort_failure) example_getReasonPhrase (options None None) =
     ([FetchCall ''http://example.com/resource'' None],
      Inr (Some (FetchError Abort ''The operation was aborted.''
                   (Some ''AbortError: The operation was aborted.'')), JNull))
   \<and> fetchEither (fetch_raises network_failure) example_getReasonPhrase (options None None) =
     ([FetchCall ''http://example.com/resource'' None],
      Inr (Some (FetchError TypeFailure ''Failed to fetch''
                   (Some ''TypeError: Failed to fetch'')), JNull))
   \<and> fetchEither (fetch_raises syntax_failure) example_getReasonPhrase (options None None) =
     ([FetchCall ''http://example.com/resource'' None],
      Inr (Some (FetchError SyntaxFailure ''Unexpected token''
                   (Some ''SyntaxError: Unexpected token'')), JNull))
   \<and> fetchEither (fetch_raises timeout_failure) example_getReasonPhrase (options None None) =
     ([FetchCall ''http://example.com/resource'' None],
      Inr (Some (UnknownError ''The operation timed out.''
                   (Some ''TimeoutError: The operation timed out.'')), JNull))
   \<and> fetchEither (fetch_raises range_failure) example_getReasonPhrase (options None None) =
     ([FetchCall ''http://example.com/resource'' None],
      Inr (Some (UnknownError ''Invalid status'' (Some ''RangeError: Invalid status'')), JNull))
   \<and> fetchEither (fetch_raises (ThrownValue (JStr ''stop''))) example_getReasonPhrase
       (options None None) =
     ([FetchCall ''http://example.com/resource'' None],
      Inr (Some (UnknownError ''unknown error'' None), JNull))"
proof (intro conjI)
  show "fetchEither (fetch_raises abort_failure) example_getReasonPhrase (options None None) =
     ([FetchCall ''http://example.com/resource'' None],
      Inr (Some (FetchError Abort ''The operation was aborted.''
                   (Some ''AbortError: The operation was aborted.'')), JNull))"
    using fetchEither_classifies_transport_failure
            [where fetch = "fetch_raises abort_failure" and opts = "options None None"
               and e = abort_failure and getReasonPhrase = example_getReasonPhrase
               and msg = "''The operation was aborted.''"
               and stk = "Some ''AbortError: The operation was aborted.''"]
    by (simp add: abort_failure_def)
  show "fetchEither (fetch_raises network_failure) example_getReasonPhrase
          (options None None) =
     ([FetchCall ''http://example.com/resource'' None],
      Inr (Some (FetchError TypeFailure ''Failed to fetch''
                   (Some ''TypeError: Failed to fetch'')), JNull))"
    using fetchEither_classifies_transport_failure
            [where fetch = "fetch_raises network_failure" and opts = "options None None"
               and e = network_failure and getReasonPhrase = example_getReasonPhrase
               and nm = "''TypeError''" and msg = "''Failed to fetch''"
               and stk = "Some ''TypeError: Failed to fetch''"]
    by (simp add: network_failure_def)
  show "fetchEither (fetch_raises syntax_failure) example_getReasonPhrase (options None None) =
     ([FetchCall ''http://example.com/resource'' None],
      Inr (Some (FetchError SyntaxFailure ''Unexpected token''
                   (Some ''SyntaxError: Unexpected token'')), JNull))"
    using fetchEither_classifies_transport_failure
            [where fetch = "fetch_raises syntax_failure" and opts = "options None None"
               and e = syntax_failure and getReasonPhrase = example_getReasonPhrase
               and nm = "''SyntaxError''" and msg = "''Unexpected token''"
               and stk = "Some ''SyntaxError: Unexpected token''"]
    by (simp add: syntax_failure_def)
  show "fetchEither (fetch_raises timeout_failure) example_getReasonPhrase
          (options None None) =
     ([FetchCall ''http://example.com/resource'' None],
      Inr (Some (UnknownError ''The operation timed out.''
                   (Some ''TimeoutError: The operation timed out.'')), JNull))"
    using fetchEither_classifies_transport_failure
            [where fetch = "fetch_raises timeout_failure" and opts = "options None None"
               and e = timeout_failure and getReasonPhrase = example_getReasonPhrase
               and cls = DOMExceptionC and nm = "''TimeoutError''"
               and msg = "''The operation timed out.''"
               and stk = "Some ''TimeoutError: The operation timed out.''"]
    by (simp add: timeout_failure_def)
  show "fetchEither (fetch_raises range_failure) example_getReasonPhrase (options None None) =
     ([FetchCall ''http://example.com/resource'' None],
      Inr (Some (UnknownError ''Invalid status'' (Some ''RangeError: Invalid status'')), JNull))"
    using fetchEither_classifies_transport_failure
            [where fetch = "fetch_raises range_failure" and opts = "options None None"
               and e = range_failure and getReasonPhrase = example_getReasonPhrase
               and cls = ErrorC and nm = "''RangeError''" and msg = "''Invalid status''"
               and stk = "Some ''RangeError: Invalid status''"]
    by (simp add: range_failure_def)
  show "fetchEither (fetch_raises (ThrownValue (JStr ''stop''))) example_getReasonPhrase
       (options None None) =
     ([FetchCall ''http://example.com/resource'' None],
      Inr (Some (UnknownError ''unknown error'' None), JNull))"
    using fetchEither_classifies_transport_failure
            [where fetch = "fetch_raises (ThrownValue (JStr ''stop''))"
               and opts = "options None None" and e = "ThrownValue (JStr ''stop'')"
               and getReasonPhrase = example_getReasonPhrase and v = "JStr ''stop''"]
    by simp
qed

end
